theory Spec2Isabelle
  imports Main
begin

section \<open>The schema object model of wuapi-essential (src/index.ts, src/util.ts)\<close>

subsection \<open>JavaScript values the model needs\<close>

text \<open>
  Errors are values. The source raises in two ways: the explicit \<^verbatim>\<open>throw\<close> of
  \<^verbatim>\<open>equalsEvenInList\<close>, which throws a string, and the TypeError the language raises when
  a property of \<^verbatim>\<open>undefined\<close> is read or when \<^verbatim>\<open>undefined\<close> is called.
\<close>

datatype js_error = Thrown string | TypeError

text \<open>
  \<^verbatim>\<open>notNU(...args)\<close> of util.ts: the loop over the arguments returns false at the first
  one that is \<^verbatim>\<open>== null || == undefined\<close>. Both tests are loose, so each holds of null and
  of undefined alike; the model has one nullish value, \<open>None\<close>, for both. The arguments have
  different types, so the caller passes for each one whether it is nullish (\<open>nu\<close>).
\<close>

definition nu :: "'a option \<Rightarrow> bool" where
  "nu x = (x = None)"

fun notNU :: "bool list \<Rightarrow> bool" where
  "notNU [] = True"
| "notNU (a # args) = (if a then False else notNU args)"

text \<open>
  The maps of the source (\<^verbatim>\<open>modules\<close>, \<^verbatim>\<open>entities\<close>, \<^verbatim>\<open>enums\<close>, \<^verbatim>\<open>enumMap\<close>,
  \<^verbatim>\<open>fieldsLocal\<close>, \<^verbatim>\<open>genericMap\<close>) are plain objects created by \<^verbatim>\<open>{}\<close>. Such an object
  is modelled by the list of its own properties, in the order in which \<^verbatim>\<open>for (k in o)\<close>
  visits them; the keys of an object are distinct.

  A read \<^verbatim>\<open>o[k]\<close> is not a lookup among the own properties only: where \<open>o\<close> has no own
  property \<open>k\<close>, the read continues in the prototype of \<open>o\<close>, which for an object made by
  \<^verbatim>\<open>{}\<close> is \<^verbatim>\<open>Object.prototype\<close>. Its properties (ECMA-262, sections 20.1.3 and B.2.2)
  are listed in \<open>Object_prototype\<close>; each of them holds a built-in function, apart from
  \<^verbatim>\<open>__proto__\<close>, which reads as \<^verbatim>\<open>Object.prototype\<close> itself. None of them is enumerable, so
  \<^verbatim>\<open>for (k in o)\<close> does not visit them. A value read this way is \<open>Inherited\<close>: it is neither
  nullish nor a node of the schema, it is truthy, and it has none of the properties the
  source reads from a node (\<^verbatim>\<open>entities\<close>, \<^verbatim>\<open>enums\<close>, \<^verbatim>\<open>getGenericUnsolved\<close>,
  \<^verbatim>\<open>fromAncestorToMe\<close>).
\<close>

type_synonym 'a obj = "(string \<times> 'a) list"

datatype 'a jsval = Nullish | Inherited | Val 'a

definition Object_prototype :: "string list" where
  "Object_prototype =
     [''constructor'', ''hasOwnProperty'', ''isPrototypeOf'', ''propertyIsEnumerable'',
      ''toLocaleString'', ''toString'', ''valueOf'', ''__proto__'',
      ''__defineGetter__'', ''__defineSetter__'', ''__lookupGetter__'', ''__lookupSetter__'']"

definition js_get :: "'a obj \<Rightarrow> string \<Rightarrow> 'a jsval" where
  "js_get ob k =
     (case map_of ob k of
        Some v \<Rightarrow> Val v
      | None \<Rightarrow> if k \<in> set Object_prototype then Inherited else Nullish)"

text \<open>\<^verbatim>\<open>!v\<close> for a value read from such an object: only the nullish value is falsy.\<close>

fun truthy :: "'a jsval \<Rightarrow> bool" where
  "truthy Nullish = False"
| "truthy Inherited = True"
| "truthy (Val v) = True"

subsection \<open>\<^verbatim>\<open>$Commentable\<close>, \<^verbatim>\<open>$ReqMethod\<close>, \<^verbatim>\<open>$EntityType\<close>\<close>

text \<open>
  \<^verbatim>\<open>fixedValue\<close> and the values a document holds for it are of type \<^verbatim>\<open>any\<close>; no function
  of the source inspects them.
\<close>

datatype any = AnyNumber int | AnyString string | AnyBoolean bool

record Commentable =
  comment :: string
  config :: "string obj option"

text \<open>
  The two numeric enums of the source are numbers at run time, and \<^verbatim>\<open>load\<close> stores the number
  of the document as it is.
\<close>

type_synonym ReqMethod = int
type_synonym EntityType = int

definition OBJECT :: EntityType where "OBJECT = 0"
definition REQUEST :: EntityType where "REQUEST = 1"
definition RESPONSE :: EntityType where "RESPONSE = 2"

subsection \<open>\<^verbatim>\<open>$ElementPath\<close>: the data and \<^verbatim>\<open>equals\<close>\<close>

record ElementPath =
  module :: "string option"
  name :: "string option"

text \<open>
  \<^verbatim>\<open>equals(another)\<close>: \<^verbatim>\<open>if(!another) return false\<close>, then the two coordinates are compared
  with \<^verbatim>\<open>==\<close>, which on \<^verbatim>\<open>string | null\<close> is equality (null equals null only).
\<close>

definition ElementPath_equals :: "ElementPath \<Rightarrow> ElementPath option \<Rightarrow> bool" where
  "ElementPath_equals this another =
     (case another of
        None \<Rightarrow> False
      | Some a \<Rightarrow> module a = module this \<and> name a = name this)"

subsection \<open>\<^verbatim>\<open>$FieldType\<close>\<close>

text \<open>
  The class \<^verbatim>\<open>$FieldType\<close> with its thirteen subclasses is a tagged union: \<^verbatim>\<open>type\<close> is the
  tag string each subclass passes to \<^verbatim>\<open>super\<close>, and the payload properties exist on the
  subclass that declares them only (reading one from another subclass gives undefined).
\<close>

datatype FieldType =
    TObject ElementPath
  | TEnum ElementPath
  | TList FieldType
  | TUnknown string
  | TInteger
  | TLong
  | TDouble
  | TID
  | TURL
  | TDateTime
  | TBoolean
  | TString
  | TSSMap

fun type :: "FieldType \<Rightarrow> string" where
  "type (TObject e) = ''TObject''"
| "type (TEnum e) = ''TEnum''"
| "type (TList m) = ''TList''"
| "type (TUnknown u) = ''TUnknown''"
| "type TInteger = ''TInteger''"
| "type TLong = ''TLong''"
| "type TDouble = ''TDouble''"
| "type TID = ''TID''"
| "type TURL = ''TURL''"
| "type TDateTime = ''TDateTime''"
| "type TBoolean = ''TBoolean''"
| "type TString = ''TString''"
| "type TSSMap = ''TSSMap''"

fun entity :: "FieldType \<Rightarrow> ElementPath option" where
  "entity (TObject e) = Some e"
| "entity t = None"

fun enu :: "FieldType \<Rightarrow> ElementPath option" where
  "enu (TEnum e) = Some e"
| "enu t = None"

fun member :: "FieldType \<Rightarrow> FieldType option" where
  "member (TList m) = Some m"
| "member t = None"

fun unknown :: "FieldType \<Rightarrow> string option" where
  "unknown (TUnknown u) = Some u"
| "unknown t = None"

text \<open>
  \<^verbatim>\<open>equals(another)\<close>: false on a nullish argument and on different tags; then the switch on
  \<^verbatim>\<open>this.type\<close>, whose cases read the payload of \<^verbatim>\<open>another\<close> through a cast
  (\<^verbatim>\<open>_other?.entity\<close> and so on).
\<close>

fun equals :: "FieldType \<Rightarrow> FieldType option \<Rightarrow> bool" where
  "equals this None = False"
| "equals (TObject e) (Some another) =
     (if type another \<noteq> ''TObject'' then False else ElementPath_equals e (entity another))"
| "equals (TEnum e) (Some another) =
     (if type another \<noteq> ''TEnum'' then False else ElementPath_equals e (enu another))"
| "equals (TUnknown u) (Some another) =
     (if type another \<noteq> ''TUnknown'' then False else Some u = unknown another)"
| "equals (TList m) (Some another) =
     (if type another \<noteq> ''TList'' then False else equals m (member another))"
| "equals this (Some another) =
     (if type another \<noteq> type this then False else True)"

text \<open>
  \<^verbatim>\<open>equalsEvenInList(another)\<close>: the throw on a list receiver comes first, then the nullish
  test, then the descent into the member of a list argument.
\<close>

fun equalsEvenInList :: "FieldType \<Rightarrow> FieldType option \<Rightarrow> js_error + bool" where
  "equalsEvenInList this None =
     (if type this = ''TList'' then Inl (Thrown ''List field shall not use quealsInList!'')
      else Inr False)"
| "equalsEvenInList this (Some (TList m)) =
     (if type this = ''TList'' then Inl (Thrown ''List field shall not use quealsInList!'')
      else equalsEvenInList this (Some m))"
| "equalsEvenInList this (Some another) =
     (if type this = ''TList'' then Inl (Thrown ''List field shall not use quealsInList!'')
      else Inr (equals this (Some another)))"

subsection \<open>\<^verbatim>\<open>$EnumItem\<close>, \<^verbatim>\<open>$Enum\<close>, \<^verbatim>\<open>$Field\<close>, \<^verbatim>\<open>$Entity\<close>, \<^verbatim>\<open>$Module\<close>, \<^verbatim>\<open>$Project\<close>\<close>

text \<open>
  The classes that extend \<^verbatim>\<open>$Commentable\<close> extend the record. The property names
  that two classes share (\<^verbatim>\<open>realname\<close>, \<^verbatim>\<open>type\<close>, \<^verbatim>\<open>name\<close>) carry the class as a
  prefix, and so does \<^verbatim>\<open>method\<close>. \<^verbatim>\<open>value\<close> is the number id of an item, an integer.
\<close>

record EnumItem = Commentable +
  EnumItem_realname :: "string option"
  "value" :: int

record Enum = Commentable +
  enumMap :: "EnumItem obj"

record Field = Commentable +
  Field_realname :: "string option"
  isOptional :: bool
  isPathParameter :: bool
  fixedValue :: "any option"
  Field_type :: FieldType

record Entity = Commentable +
  isAbstract :: bool
  parent :: "ElementPath option"
  response :: "ElementPath option"
  path :: "string option"
  Entity_method :: "ReqMethod option"
  fieldsLocal :: "Field obj"
  genericMap :: "Field obj"
  Entity_type :: EntityType

record Module =
  entities :: "Entity obj"
  enums :: "Enum obj"

record Project =
  modules :: "Module obj"
  Project_name :: string
  version :: string
  targetPackage :: string

text \<open>
  The constructors, with the initial values the classes give to their properties. The
  default of the parameter of \<^verbatim>\<open>new $Entity\<close> is \<^verbatim>\<open>$EntityType.OBJECT\<close>.
\<close>

definition new_EnumItem :: "int \<Rightarrow> EnumItem" where
  "new_EnumItem v = \<lparr>comment = [], config = None, EnumItem_realname = None, value = v\<rparr>"

definition new_Enum :: Enum where
  "new_Enum = \<lparr>comment = [], config = None, enumMap = []\<rparr>"

definition new_Field :: "FieldType \<Rightarrow> Field" where
  "new_Field t =
     \<lparr>comment = [], config = None, Field_realname = None, isOptional = False,
      isPathParameter = False, fixedValue = None, Field_type = t\<rparr>"

definition new_Entity :: "EntityType \<Rightarrow> Entity" where
  "new_Entity t =
     \<lparr>comment = [], config = None, isAbstract = False, parent = None, response = None,
      path = None, Entity_method = None, fieldsLocal = [], genericMap = [], Entity_type = t\<rparr>"

definition new_Module :: Module where
  "new_Module = \<lparr>entities = [], enums = []\<rparr>"

definition new_Project :: "string \<Rightarrow> string \<Rightarrow> string \<Rightarrow> Project" where
  "new_Project n v t = \<lparr>modules = [], Project_name = n, version = v, targetPackage = t\<rparr>"

subsection \<open>\<^verbatim>\<open>$ElementPath.asEntityOf\<close> and \<^verbatim>\<open>asEnumOf\<close>\<close>

text \<open>
  \<^verbatim>\<open>return project.modules[this.module]?.entities[this.name] ?? null\<close>. The optional chain
  stops, with undefined, only where \<^verbatim>\<open>project.modules[this.module]\<close> is nullish. Where that
  read gives an inherited value, \<^verbatim>\<open>.entities\<close> of it is undefined and the read of
  \<^verbatim>\<open>[this.name]\<close> from undefined raises a TypeError. Where it gives a module, the second
  read returns what \<^verbatim>\<open>entities[this.name]\<close> holds, and \<^verbatim>\<open>?? null\<close> replaces a nullish value
  only.
\<close>

definition asEntityOf :: "ElementPath \<Rightarrow> Project option \<Rightarrow> js_error + Entity jsval" where
  "asEntityOf this project =
     (case project of
        None \<Rightarrow> Inr Nullish
      | Some p \<Rightarrow>
          if module this = None \<or> name this = None then Inr Nullish
          else (case js_get (modules p) (the (module this)) of
                  Nullish \<Rightarrow> Inr Nullish
                | Inherited \<Rightarrow> Inl TypeError
                | Val m \<Rightarrow> Inr (js_get (entities m) (the (name this)))))"

definition asEnumOf :: "ElementPath \<Rightarrow> Project option \<Rightarrow> js_error + Enum jsval" where
  "asEnumOf this project =
     (case project of
        None \<Rightarrow> Inr Nullish
      | Some p \<Rightarrow>
          if module this = None \<or> name this = None then Inr Nullish
          else (case js_get (modules p) (the (module this)) of
                  Nullish \<Rightarrow> Inr Nullish
                | Inherited \<Rightarrow> Inl TypeError
                | Val m \<Rightarrow> Inr (js_get (enums m) (the (name this)))))"

subsection \<open>\<^verbatim>\<open>$Enum.firstName\<close> and \<^verbatim>\<open>first\<close>\<close>

text \<open>
  The loop of \<^verbatim>\<open>firstName\<close> visits the own properties of \<^verbatim>\<open>enumMap\<close> in order, with the
  two variables \<open>i\<close> (the least value so far) and \<open>k\<close> (its key), both null at the start;
  \<^verbatim>\<open>if(i == null || item.value < i)\<close> replaces them.
\<close>

fun firstName_loop ::
  "EnumItem obj \<Rightarrow> int option \<times> string option \<Rightarrow> int option \<times> string option" where
  "firstName_loop [] (i, k) = (i, k)"
| "firstName_loop ((key, item) # rest) (i, k) =
     firstName_loop rest
       (if (case i of None \<Rightarrow> True | Some iv \<Rightarrow> value item < iv)
        then (Some (value item), Some key) else (i, k))"

definition firstName :: "Enum \<Rightarrow> string option" where
  "firstName this = snd (firstName_loop (enumMap this) (None, None))"

definition first :: "Enum \<Rightarrow> EnumItem jsval" where
  "first this =
     (let k = firstName this in
      if k = None then Nullish else js_get (enumMap this) (the k))"

subsection \<open>\<^verbatim>\<open>$Entity\<close>: generics and the walk over the ancestors\<close>

text \<open>
  \<^verbatim>\<open>getGenericLocal\<close> pushes the parameter name of every local field whose type has the tag
  \<^verbatim>\<open>TUnknown\<close>, in the order of the loop.
\<close>

fun getGenericLocal_loop :: "Field obj \<Rightarrow> string list \<Rightarrow> string list" where
  "getGenericLocal_loop [] result = result"
| "getGenericLocal_loop ((k, field) # rest) result =
     getGenericLocal_loop rest
       (if type (Field_type field) = ''TUnknown''
        then result @ [the (unknown (Field_type field))] else result)"

definition getGenericLocal :: "Entity \<Rightarrow> string list" where
  "getGenericLocal this = getGenericLocal_loop (fieldsLocal this) []"

text \<open>
  The last two lines of \<^verbatim>\<open>getGenericUnsolved\<close>: \<^verbatim>\<open>pg.concat(this.getGenericLocal())\<close>, then
  the filter that keeps a name \<open>g\<close> where \<^verbatim>\<open>!this.genericMap[g]\<close> holds.
\<close>

definition unsolved_here :: "Entity \<Rightarrow> string list \<Rightarrow> string list" where
  "unsolved_here this pg =
     filter (\<lambda>g. \<not> truthy (js_get (genericMap this) g)) (pg @ getGenericLocal this)"

text \<open>
  \<^verbatim>\<open>getGenericUnsolved\<close> calls itself on the resolved parent, and nothing in the source bounds
  the recursion: on a cyclic parent chain it does not return, which is the value \<open>None\<close>
  here. In \<^verbatim>\<open>this.parent?.asEntityOf(project)?.getGenericUnsolved(project) ?? []\<close> the chain
  stops on a nullish parent path and on a nullish result of \<^verbatim>\<open>asEntityOf\<close>; on an inherited
  value \<^verbatim>\<open>.getGenericUnsolved\<close> is undefined, and calling it raises a TypeError.
\<close>

partial_function (option) getGenericUnsolved ::
  "Entity \<Rightarrow> Project option \<Rightarrow> (js_error + string list) option" where
  "getGenericUnsolved this project =
     (if project = None then Some (Inr [])
      else (case parent this of
              None \<Rightarrow> Some (Inr (unsolved_here this []))
            | Some pp \<Rightarrow>
                (case asEntityOf pp project of
                   Inl e \<Rightarrow> Some (Inl e)
                 | Inr Nullish \<Rightarrow> Some (Inr (unsolved_here this []))
                 | Inr Inherited \<Rightarrow> Some (Inl TypeError)
                 | Inr (Val pe) \<Rightarrow>
                     Option.bind (getGenericUnsolved pe project)
                       (\<lambda>r. case r of
                               Inl e \<Rightarrow> Some (Inl e)
                             | Inr pg \<Rightarrow> Some (Inr (unsolved_here this pg))))))"

text \<open>
  \<^verbatim>\<open>fromAncestorToMe(project, block)\<close>: the callback is a state transformer, and the state
  \<open>s\<close> is everything the callback changes. An exception leaves the walk with the state
  reached so far: \<open>Inl (e, s)\<close>.
\<close>

partial_function (option) fromAncestorToMe ::
  "Entity \<Rightarrow> Project \<Rightarrow> (Entity \<Rightarrow> 's \<Rightarrow> 's) \<Rightarrow> 's \<Rightarrow> (js_error \<times> 's + 's) option" where
  "fromAncestorToMe this project block s =
     (case parent this of
        None \<Rightarrow> Some (Inr (block this s))
      | Some pp \<Rightarrow>
          (case asEntityOf pp (Some project) of
             Inl e \<Rightarrow> Some (Inl (e, s))
           | Inr Nullish \<Rightarrow> Some (Inr (block this s))
           | Inr Inherited \<Rightarrow> Some (Inl (TypeError, s))
           | Inr (Val pe) \<Rightarrow>
               Option.bind (fromAncestorToMe pe project block s)
                 (\<lambda>r. case r of
                         Inl es \<Rightarrow> Some (Inl es)
                       | Inr s' \<Rightarrow> Some (Inr (block this s')))))"

subsection \<open>\<^verbatim>\<open>forIn\<close>, \<^verbatim>\<open>$Project.flatEntities\<close> and \<^verbatim>\<open>flatEnums\<close>\<close>




subsection \<open>Documents\<close>

text \<open>
  Every \<^verbatim>\<open>load\<close> takes \<^verbatim>\<open>data: any\<close>. A document is modelled with the properties its
  loader reads; each of them is absent or null (\<open>None\<close>) or has a value of the type the class
  declares for it. An entry of a map inside a document may itself be null. The prefix of a
  property names the class of the document.
\<close>

record ElementPath_data =
  pd_module :: "string option"
  pd_name :: "string option"



datatype FieldType_data =
  FieldType_data
    (td_type : "string option")
    (td_entity : "ElementPath_data option")
    (td_enu : "ElementPath_data option")
    (td_member : "FieldType_data option")
    (td_unknown : "string option")

record Field_data =
  fd_type :: "FieldType_data option"
  fd_isOptional :: "bool option"
  fd_isPathParameter :: "bool option"
  fd_comment :: "string option"
  fd_config :: "string obj option"
  fd_realname :: "string option"
  fd_fixedValue :: "any option"

record Entity_data =
  ed_type :: "EntityType option"
  ed_isAbstract :: "bool option"
  ed_fieldsLocal :: "Field_data option obj option"
  ed_genericMap :: "Field_data option obj option"
  ed_comment :: "string option"
  ed_config :: "string obj option"
  ed_path :: "string option"
  ed_method :: "ReqMethod option"
  ed_parent :: "ElementPath_data option"
  ed_response :: "ElementPath_data option"



subsection \<open>The loaders\<close>

text \<open>
  \<^verbatim>\<open>x ?? d\<close>, for a default \<open>d\<close> of the type of \<open>x\<close> and for the default null, which
  is \<open>None\<close>.
\<close>

definition nullish_or_else :: "'a option \<Rightarrow> 'a \<Rightarrow> 'a" where
  "nullish_or_else x d = (case x of None \<Rightarrow> d | Some v \<Rightarrow> v)"

definition nullish_or :: "'a option \<Rightarrow> 'a option \<Rightarrow> 'a option" where
  "nullish_or x d = (case x of None \<Rightarrow> d | Some v \<Rightarrow> Some v)"

text \<open>
  The assignment \<^verbatim>\<open>o[i] = v\<close> on a plain object: an own property \<open>i\<close> keeps its place
  and takes the new value, and a new key comes last (the loaders fill a fresh object in
  the order in which \<^verbatim>\<open>for (i in data)\<close> visits the document, so the new object lists its
  keys in the same order). The one key that is different is \<^verbatim>\<open>__proto__\<close>: where the object
  has no own property of that name, the assignment runs the setter inherited from
  \<^verbatim>\<open>Object.prototype\<close>, which makes the assigned node the prototype of the object and
  defines no own property. The list of own properties is then what it was; what the
  object inherits from its new prototype is not part of the list.
\<close>

fun js_set :: "'a obj \<Rightarrow> string \<Rightarrow> 'a \<Rightarrow> 'a obj" where
  "js_set [] i v = (if i = ''__proto__'' then [] else [(i, v)])"
| "js_set ((k, w) # rest) i v = (if k = i then (i, v) # rest else (k, w) # js_set rest i v)"

text \<open>
  The five loops of the form
  \<^verbatim>\<open>for(let i in src){ const x = C.load(src[i]); if(notNU(x)){ dst[i] = x! } }\<close>.
  An entry of \<open>src\<close> that is null makes \<^verbatim>\<open>C.load\<close> read a property of null, a TypeError,
  which leaves the loop and the loader around it.
\<close>

fun load_each ::
  "('d \<Rightarrow> js_error + 'a option) \<Rightarrow> 'd option obj \<Rightarrow> 'a obj \<Rightarrow> js_error + 'a obj" where
  "load_each load [] dst = Inr dst"
| "load_each load ((i, d) # rest) dst =
     (case d of
        None \<Rightarrow> Inl TypeError
      | Some dd \<Rightarrow>
          (case load dd of
             Inl e \<Rightarrow> Inl e
           | Inr x \<Rightarrow>
               if notNU [nu x] then load_each load rest (js_set dst i (the x))
               else load_each load rest dst))"

definition ElementPath_load :: "ElementPath_data \<Rightarrow> ElementPath" where
  "ElementPath_load data =
     \<lparr>module = nullish_or (pd_module data) None,
      name = nullish_or (pd_name data) None\<rparr>"



text \<open>
  \<^verbatim>\<open>$FieldType.load\<close>: the switch on \<^verbatim>\<open>data.type\<close>. In the cases \<^verbatim>\<open>TObject\<close> and
  \<^verbatim>\<open>TEnum\<close> the loaded path is tested with \<^verbatim>\<open>notNU\<close> before it is used.
\<close>

fun FieldType_load :: "FieldType_data \<Rightarrow> FieldType option" where
  "FieldType_load (FieldType_data ty en eu me un) =
     (if \<not> notNU [nu ty] then None
      else if the ty = ''TInteger'' then Some TInteger
      else if the ty = ''TLong'' then Some TLong
      else if the ty = ''TDouble'' then Some TDouble
      else if the ty = ''TID'' then Some TID
      else if the ty = ''TURL'' then Some TURL
      else if the ty = ''TDateTime'' then Some TDateTime
      else if the ty = ''TBoolean'' then Some TBoolean
      else if the ty = ''TString'' then Some TString
      else if the ty = ''TSSMap'' then Some TSSMap
      else if the ty = ''TObject'' then
        (if \<not> notNU [nu en] then None
         else (let path = Some (ElementPath_load (the en)) in
               if \<not> notNU [nu path] then None else Some (TObject (the path))))
      else if the ty = ''TEnum'' then
        (if \<not> notNU [nu eu] then None
         else (let path = Some (ElementPath_load (the eu)) in
               if \<not> notNU [nu path] then None else Some (TEnum (the path))))
      else if the ty = ''TList'' then
        (case me of
           None \<Rightarrow> None
         | Some md \<Rightarrow>
             (let member = FieldType_load md in
              if \<not> notNU [nu member] then None else Some (TList (the member))))
      else if the ty = ''TUnknown'' then
        (if \<not> notNU [nu un] then None else Some (TUnknown (the un)))
      else None)"

definition Field_load :: "Field_data \<Rightarrow> Field option" where
  "Field_load data =
     (if \<not> notNU [nu (fd_type data), nu (fd_isOptional data), nu (fd_isPathParameter data)]
      then None
      else (let filedType = FieldType_load (the (fd_type data)) in
            if \<not> notNU [nu filedType] then None
            else Some ((new_Field (the filedType))
                       \<lparr>comment := nullish_or_else (fd_comment data) [],
                        config := fd_config data,
                        Field_realname := nullish_or (fd_realname data) None,
                        isOptional := the (fd_isOptional data),
                        isPathParameter := the (fd_isPathParameter data),
                        fixedValue := fd_fixedValue data\<rparr>)))"

definition Entity_load :: "Entity_data \<Rightarrow> js_error + Entity option" where
  "Entity_load data =
     (if \<not> notNU [nu (ed_type data), nu (ed_isAbstract data),
                   nu (ed_fieldsLocal data), nu (ed_genericMap data)]
      then Inr None
      else (let entity = (new_Entity (the (ed_type data)))
                  \<lparr>comment := nullish_or_else (ed_comment data) [],
                   config := ed_config data,
                   isAbstract := the (ed_isAbstract data),
                   path := nullish_or (ed_path data) None,
                   Entity_method := nullish_or (ed_method data) None\<rparr>;
                entity = (if notNU [nu (ed_parent data)]
                          then entity\<lparr>parent := Some (ElementPath_load (the (ed_parent data)))\<rparr>
                          else entity);
                entity = (if notNU [nu (ed_response data)]
                          then entity\<lparr>response := Some (ElementPath_load (the (ed_response data)))\<rparr>
                          else entity)
            in case load_each (\<lambda>d. Inr (Field_load d)) (the (ed_fieldsLocal data))
                      (fieldsLocal entity) of
                 Inl e \<Rightarrow> Inl e
               | Inr fl \<Rightarrow>
                   (case load_each (\<lambda>d. Inr (Field_load d)) (the (ed_genericMap data))
                           (genericMap entity) of
                      Inl e \<Rightarrow> Inl e
                    | Inr gm \<Rightarrow> Inr (Some (entity\<lparr>fieldsLocal := fl, genericMap := gm\<rparr>)))))"



subsection \<open>Notions of the specification\<close>

text \<open>
  What the specification calls unwrapping a type through its list layers: the member of
  a \<^verbatim>\<open>TList\<close>, again and again, until the type is no list.
\<close>

fun stripList :: "FieldType \<Rightarrow> FieldType" where
  "stripList (TList m) = stripList m"
| "stripList t = t"

text \<open>
  The two readings of "the item with the least value" when several items have it: the
  first of them in the order of the scan, and the last of them.
\<close>

definition firstMinName :: "Enum \<Rightarrow> string option" where
  "firstMinName this =
     map_option fst
       (find (\<lambda>p. value (snd p) = min_list (map (\<lambda>p. value (snd p)) (enumMap this)))
          (enumMap this))"

definition lastMinName :: "Enum \<Rightarrow> string option" where
  "lastMinName this =
     map_option fst
       (find (\<lambda>p. value (snd p) = min_list (map (\<lambda>p. value (snd p)) (enumMap this)))
          (rev (enumMap this)))"



subsection \<open>Inputs of the examples\<close>

text \<open>The enumeration \<^verbatim>\<open>{a: 3, b: 1, c: 1}\<close> of the specification.\<close>

definition tie_enum :: Enum where
  "tie_enum =
     new_Enum\<lparr>enumMap :=
       [(''a'', new_EnumItem 3), (''b'', new_EnumItem 1), (''c'', new_EnumItem 1)]\<rparr>"

text \<open>A project without modules, and a project whose one module \<open>m\<close> is empty.\<close>

definition empty_project :: Project where
  "empty_project = new_Project ''p'' ''1'' ''t''"

definition one_module_project :: Project where
  "one_module_project = empty_project\<lparr>modules := [(''m'', new_Module)]\<rparr>"

text \<open>
  Entity documents. The first has three local fields: \<open>tag\<close> has no \<^verbatim>\<open>isOptional\<close>,
  \<open>id\<close> and \<open>items\<close> are complete. In the second the entry \<open>id\<close> is null. In the
  third the complete field is under the key \<^verbatim>\<open>__proto__\<close>.
\<close>

definition integer_field_data :: Field_data where
  "integer_field_data =
     \<lparr>fd_type = Some (FieldType_data (Some ''TInteger'') None None None None),
      fd_isOptional = Some False, fd_isPathParameter = Some False, fd_comment = None,
      fd_config = None, fd_realname = None, fd_fixedValue = None\<rparr>"

definition items_field_data :: Field_data where
  "items_field_data =
     \<lparr>fd_type =
        Some (FieldType_data (Some ''TList'') None None
          (Some (FieldType_data (Some ''TObject'')
             (Some \<lparr>pd_module = Some ''m'', pd_name = Some ''A''\<rparr>) None None None))
          None),
      fd_isOptional = Some True, fd_isPathParameter = Some False,
      fd_comment = Some ''the items'', fd_config = None, fd_realname = Some ''item-list'',
      fd_fixedValue = None\<rparr>"


definition three_field_entity_data :: Entity_data where
  "three_field_entity_data =
     \<lparr>ed_type = Some OBJECT, ed_isAbstract = Some False,
      ed_fieldsLocal =
        Some [(''tag'', Some (integer_field_data\<lparr>fd_isOptional := None\<rparr>)),
              (''id'', Some integer_field_data),
              (''items'', Some items_field_data)],
      ed_genericMap = Some [],
      ed_comment = None, ed_config = None, ed_path = None, ed_method = None,
      ed_parent = None, ed_response = None\<rparr>"


definition proto_key_entity_data :: Entity_data where
  "proto_key_entity_data =
     three_field_entity_data
       \<lparr>ed_fieldsLocal :=
          Some [(''tag'', Some (integer_field_data\<lparr>fd_isOptional := None\<rparr>)),
                (''__proto__'', Some integer_field_data)]\<rparr>"






text \<open>
  The inheritance chain of the specification. \<open>lineage P e as\<close>: \<open>as\<close> lists \<open>e\<close> after
  its ancestors, the eldest first; each parent path resolves in \<open>P\<close> to the entity before,
  and the eldest has no parent path or one that resolves to null. A chain that is cyclic
  has no such list.
\<close>

inductive lineage :: "Project \<Rightarrow> Entity \<Rightarrow> Entity list \<Rightarrow> bool" for P :: Project where
  eldest:
    "parent e = None \<or> (\<exists>pp. parent e = Some pp \<and> asEntityOf pp (Some P) = Inr Nullish)
     \<Longrightarrow> lineage P e [e]"
| child:
    "parent e = Some pp \<Longrightarrow> asEntityOf pp (Some P) = Inr (Val a) \<Longrightarrow> lineage P a as
     \<Longrightarrow> lineage P e (as @ [e])"

text \<open>
  An entity whose one local field has the generic type \<open>constructor\<close>, and an entity
  whose parent path is \<^verbatim>\<open>{module: "constructor", name: "A"}\<close>.
\<close>

definition generic_constructor_entity :: Entity where
  "generic_constructor_entity =
     (new_Entity OBJECT)\<lparr>fieldsLocal := [(''x'', new_Field (TUnknown ''constructor''))]\<rparr>"

definition constructor_child_entity :: Entity where
  "constructor_child_entity =
     (new_Entity OBJECT)\<lparr>parent := Some \<lparr>module = Some ''constructor'', name = Some ''A''\<rparr>\<rparr>"

text \<open>
  The scenario of the specification: \<open>Parent\<close> has a field of the generic type \<open>T\<close>,
  \<open>Child\<close> extends \<open>Parent\<close> and binds \<open>T\<close> in its \<^verbatim>\<open>genericMap\<close>.
\<close>

definition Parent_entity :: Entity where
  "Parent_entity = (new_Entity OBJECT)\<lparr>fieldsLocal := [(''payload'', new_Field (TUnknown ''T''))]\<rparr>"

definition Child_entity :: Entity where
  "Child_entity =
     (new_Entity OBJECT)
       \<lparr>parent := Some \<lparr>module = Some ''m'', name = Some ''Parent''\<rparr>,
        genericMap := [(''T'', new_Field TString)]\<rparr>"

definition family_project :: Project where
  "family_project =
     (new_Project ''p'' ''1'' ''t'')
       \<lparr>modules :=
          [(''m'', new_Module\<lparr>entities := [(''Parent'', Parent_entity), (''Child'', Child_entity)]\<rparr>)]\<rparr>"

text \<open>An entity whose parent path \<^verbatim>\<open>{module: "m", name: "Missing"}\<close> names no entity.\<close>

definition lost_parent_entity :: Entity where
  "lost_parent_entity =
     (new_Entity OBJECT)\<lparr>parent := Some \<lparr>module = Some ''m'', name = Some ''Missing''\<rparr>\<rparr>"

section \<open>Properties\<close>

subsection \<open>Tags\<close>

lemma type_tag_iff [simp]:
  "type t = ''TObject'' \<longleftrightarrow> (\<exists>e. t = TObject e)"
  "type t = ''TEnum'' \<longleftrightarrow> (\<exists>e. t = TEnum e)"
  "type t = ''TList'' \<longleftrightarrow> (\<exists>m. t = TList m)"
  "type t = ''TUnknown'' \<longleftrightarrow> (\<exists>u. t = TUnknown u)"
  by (cases t; simp)+

subsection \<open>Equality of paths and of field types\<close>

text \<open>
  C9. For all paths \<open>p\<close> and \<open>q\<close>, \<^verbatim>\<open>p.equals(q)\<close> is true exactly when the modules are
  equal and the names are equal; two paths with both coordinates null are equal; and
  \<^verbatim>\<open>p.equals(null)\<close> and \<^verbatim>\<open>p.equals(undefined)\<close> are false.
\<close>

theorem ElementPath_equals_iff:
  "ElementPath_equals p (Some q) = (module p = module q \<and> name p = name q)
   \<and> ElementPath_equals \<lparr>module = None, name = None\<rparr> (Some \<lparr>module = None, name = None\<rparr>)
   \<and> ElementPath_equals p None = False"
  by (auto simp: ElementPath_equals_def)

text \<open>On two field types \<^verbatim>\<open>equals\<close> is equality of the two values.\<close>

lemma equals_is_equality: "equals a (Some b) = (a = b)"
  by (induction a arbitrary: b; case_tac b; auto simp: ElementPath_equals_def)

text \<open>
  C3. \<^verbatim>\<open>A.equals(B)\<close> is false when \<open>B\<close> is null or undefined and when the tags differ;
  true when the tags are equal and one of the nine tags without payload; on two
  \<^verbatim>\<open>TObject\<close> (two \<^verbatim>\<open>TEnum\<close>) values it is \<^verbatim>\<open>$ElementPath.equals\<close> of the two paths, and the
  entity the path names is not looked at; on two \<^verbatim>\<open>TList\<close> values it is \<^verbatim>\<open>equals\<close> of the
  members; on two \<^verbatim>\<open>TUnknown\<close> values it is equality of the parameter names.
\<close>

theorem equals_by_tag:
  "equals a None = False
   \<and> (type b \<noteq> type a \<longrightarrow> equals a (Some b) = False)
   \<and> (type a \<in> set [''TInteger'', ''TLong'', ''TDouble'', ''TID'', ''TURL'', ''TDateTime'',
                     ''TBoolean'', ''TString'', ''TSSMap'']
        \<longrightarrow> type b = type a \<longrightarrow> equals a (Some b) = True)
   \<and> equals (TObject e) (Some (TObject e')) = ElementPath_equals e (Some e')
   \<and> equals (TEnum e) (Some (TEnum e')) = ElementPath_equals e (Some e')
   \<and> equals (TList m) (Some (TList m')) = equals m (Some m')
   \<and> equals (TUnknown u) (Some (TUnknown u')) = (u = u')"
proof -
  have mismatch: "type b \<noteq> type a \<longrightarrow> equals a (Some b) = False"
    by (auto simp: equals_is_equality)
  have plain: "type a \<in> set [''TInteger'', ''TLong'', ''TDouble'', ''TID'', ''TURL'',
                  ''TDateTime'', ''TBoolean'', ''TString'', ''TSSMap'']
        \<longrightarrow> type b = type a \<longrightarrow> equals a (Some b) = True"
    by (cases a; cases b; simp)
  show ?thesis using mismatch plain by simp
qed

theorem equals_by_tag_witness:
  "type TString \<noteq> type TInteger \<and> equals TInteger (Some TString) = False
   \<and> type TLong \<in> set [''TInteger'', ''TLong'', ''TDouble'', ''TID'', ''TURL'', ''TDateTime'',
                      ''TBoolean'', ''TString'', ''TSSMap'']
   \<and> type TLong = type TLong \<and> equals TLong (Some TLong) = True"
  using equals_by_tag [of TInteger TString] equals_by_tag [of TLong TLong] by simp

text \<open>
  C2. For a receiver \<open>a\<close> that is no list, \<^verbatim>\<open>a.equalsEvenInList(b)\<close> is \<^verbatim>\<open>a.equals\<close> of \<open>b\<close>
  with all its list layers removed, and it is false on null or undefined; for a receiver
  with the tag \<^verbatim>\<open>TList\<close> it throws, whatever the argument; and
  \<^verbatim>\<open>TInteger.equalsEvenInList(TList(TList(TInteger)))\<close> is true.
\<close>

theorem equalsEvenInList_strips:
  "(type a \<noteq> ''TList'' \<longrightarrow>
      equalsEvenInList a (Some b) = Inr (equals a (Some (stripList b)))
      \<and> equalsEvenInList a None = Inr False)
   \<and> (type a = ''TList'' \<longrightarrow>
        equalsEvenInList a x = Inl (Thrown ''List field shall not use quealsInList!''))
   \<and> equalsEvenInList TInteger (Some (TList (TList TInteger))) = Inr True"
proof -
  have strips: "type a \<noteq> ''TList'' \<Longrightarrow>
      equalsEvenInList a (Some b) = Inr (equals a (Some (stripList b)))"
    by (induction b) auto
  have throws: "type a = ''TList'' \<Longrightarrow>
      equalsEvenInList a x = Inl (Thrown ''List field shall not use quealsInList!'')"
    by (cases "(a, x)" rule: equalsEvenInList.cases) auto
  show ?thesis using strips throws by auto
qed

theorem equalsEvenInList_strips_witness:
  "type (TUnknown ''T'') \<noteq> ''TList''
   \<and> equalsEvenInList (TUnknown ''T'') (Some (TList (TList (TUnknown ''T'')))) = Inr True
   \<and> equalsEvenInList (TUnknown ''T'') None = Inr False
   \<and> type (TList TInteger) = ''TList''
   \<and> equalsEvenInList (TList TInteger) (Some TInteger)
       = Inl (Thrown ''List field shall not use quealsInList!'')"
  using equalsEvenInList_strips [of "TUnknown ''T''" "TList (TList (TUnknown ''T''))"]
    equalsEvenInList_strips [of "TList TInteger" _ "Some TInteger"]
  by simp

subsection \<open>Reading a property of a plain object\<close>

lemma js_get_plain:
  "k \<notin> set Object_prototype \<Longrightarrow>
     js_get ob k = (case map_of ob k of None \<Rightarrow> Nullish | Some v \<Rightarrow> Val v)"
  by (simp add: js_get_def split: option.splits)

lemma js_get_own: "map_of ob k = Some v \<Longrightarrow> js_get ob k = Val v"
  by (simp add: js_get_def)

subsection \<open>Resolution of a path\<close>

text \<open>
  Where neither coordinate of the path is the name of a property of
  \<^verbatim>\<open>Object.prototype\<close>, \<^verbatim>\<open>asEntityOf\<close> is the lookup in the two maps, and null where a lookup
  misses.
\<close>

lemma asEntityOf_plain_names:
  "asEntityOf p None = Inr Nullish"
  "module p = None \<or> name p = None \<Longrightarrow> asEntityOf p (Some P) = Inr Nullish"
  "module p = Some m \<Longrightarrow> name p = Some n \<Longrightarrow>
   m \<notin> set Object_prototype \<Longrightarrow> n \<notin> set Object_prototype \<Longrightarrow>
     asEntityOf p (Some P) =
       Inr (case map_of (modules P) m of
              None \<Rightarrow> Nullish
            | Some mo \<Rightarrow> (case map_of (entities mo) n of None \<Rightarrow> Nullish | Some e \<Rightarrow> Val e))"
  by (auto simp: asEntityOf_def js_get_plain split: option.splits)

lemma asEnumOf_plain_names:
  "asEnumOf p None = Inr Nullish"
  "module p = None \<or> name p = None \<Longrightarrow> asEnumOf p (Some P) = Inr Nullish"
  "module p = Some m \<Longrightarrow> name p = Some n \<Longrightarrow>
   m \<notin> set Object_prototype \<Longrightarrow> n \<notin> set Object_prototype \<Longrightarrow>
     asEnumOf p (Some P) =
       Inr (case map_of (modules P) m of
              None \<Rightarrow> Nullish
            | Some mo \<Rightarrow> (case map_of (enums mo) n of None \<Rightarrow> Nullish | Some e \<Rightarrow> Val e))"
  by (auto simp: asEnumOf_def js_get_plain split: option.splits)

text \<open>
  C8 says that \<^verbatim>\<open>asEntityOf\<close> and \<^verbatim>\<open>asEnumOf\<close> return null exactly when the project, a
  coordinate, the module or the element is missing, return the stored element otherwise,
  and raise on no input. The code raises: for the path \<^verbatim>\<open>{module: "constructor", name: "A"}\<close>
  and a project that has no module of that name, \<^verbatim>\<open>project.modules["constructor"]\<close> is the
  inherited function \<^verbatim>\<open>Object\<close>, its \<^verbatim>\<open>entities\<close> (its \<^verbatim>\<open>enums\<close>) is undefined, and the read
  of \<^verbatim>\<open>["A"]\<close> from it is a TypeError. And for the path \<^verbatim>\<open>{module: "m", name: "toString"}\<close>
  and a module \<open>m\<close> without entities, the result is the inherited function, not null.
\<close>

theorem asEntityOf_inherited_name:
  "asEntityOf \<lparr>module = Some ''constructor'', name = Some ''A''\<rparr> (Some empty_project)
     = Inl TypeError
   \<and> asEnumOf \<lparr>module = Some ''constructor'', name = Some ''A''\<rparr> (Some empty_project)
     = Inl TypeError
   \<and> map_of (modules empty_project) ''constructor'' = None
   \<and> asEntityOf \<lparr>module = Some ''m'', name = Some ''toString''\<rparr> (Some one_module_project)
     = Inr Inherited
   \<and> map_of (modules one_module_project) ''m'' = Some new_Module
   \<and> map_of (entities new_Module) ''toString'' = None"
  by (simp add: asEntityOf_def asEnumOf_def js_get_def Object_prototype_def empty_project_def
      one_module_project_def new_Project_def new_Module_def)

subsection \<open>The first item of an enumeration\<close>

lemma firstName_loop_snoc:
  "firstName_loop (m @ [x]) s = firstName_loop [x] (firstName_loop m s)"
  by (induction m s rule: firstName_loop.induct) auto

lemma min_list_snoc: "xs \<noteq> [] \<Longrightarrow> min_list (xs @ [x]) = min (min_list xs) (x::int)"
  by (simp add: min_list_Min min.commute)

lemma find_snoc:
  "find P (xs @ [x]) =
     (case find P xs of Some y \<Rightarrow> Some y | None \<Rightarrow> if P x then Some x else None)"
  by (induction xs) auto

lemma find_Some_mem: "find P xs = Some x \<Longrightarrow> x \<in> set xs \<and> P x"
  by (induction xs) (auto split: if_splits)

lemma min_list_le: "x \<in> set xs \<Longrightarrow> min_list xs \<le> (x::int)"
  by (cases "xs = []") (auto simp: min_list_Min)

lemma min_list_in: "xs \<noteq> [] \<Longrightarrow> min_list xs \<in> set (xs :: int list)"
  by (simp add: min_list_Min)

text \<open>
  The invariant of the scan: after a non-empty prefix \<open>m\<close>, \<open>i\<close> is the least value in
  \<open>m\<close> and \<open>k\<close> is the key of the first item of \<open>m\<close> that has it.
\<close>

lemma firstName_loop_first_min:
  "m \<noteq> [] \<Longrightarrow>
     firstName_loop m (None, None) =
       (Some (min_list (map (\<lambda>p. value (snd p)) m)),
        map_option fst
          (find (\<lambda>p. value (snd p) = min_list (map (\<lambda>p. value (snd p)) m)) m))"
proof (induction m rule: rev_nonempty_induct)
  case (single x)
  then show ?case by (cases x) simp
next
  case (snoc x m)
  obtain k item where x: "x = (k, item)" by (cases x)
  let ?vs = "map (\<lambda>p. value (snd p)) m"
  have ne: "?vs \<noteq> []" using snoc.hyps by simp
  show ?case
  proof (cases "value item < min_list ?vs")
    case True
    then have mn: "min_list (?vs @ [value item]) = value item"
      using ne by (simp add: min_list_snoc)
    have "\<forall>p \<in> set m. value (snd p) \<noteq> value item"
    proof
      fix p assume "p \<in> set m"
      then have "value (snd p) \<in> set ?vs" by simp
      then have "min_list ?vs \<le> value (snd p)" by (rule min_list_le)
      with True show "value (snd p) \<noteq> value item" by simp
    qed
    then have "find (\<lambda>p. value (snd p) = value item) m = None"
      by (auto simp: find_None_iff)
    with True mn snoc.IH show ?thesis
      by (simp add: firstName_loop_snoc x find_snoc)
  next
    case False
    then have mn: "min_list (?vs @ [value item]) = min_list ?vs"
      using ne by (simp add: min_list_snoc)
    have "min_list ?vs \<in> set ?vs" using ne by (rule min_list_in)
    then obtain p where "p \<in> set m" "value (snd p) = min_list ?vs"
      by auto
    then have "find (\<lambda>p. value (snd p) = min_list ?vs) m \<noteq> None"
      unfolding find_None_iff by blast
    then obtain y where "find (\<lambda>p. value (snd p) = min_list ?vs) m = Some y" by auto
    with False mn snoc.IH show ?thesis
      by (simp add: firstName_loop_snoc x find_snoc)
  qed
qed

lemma firstName_firstMinName: "firstName this = firstMinName this"
  by (cases "enumMap this = []")
     (simp_all add: firstName_def firstMinName_def firstName_loop_first_min)

text \<open>
  C4, as stated: the name \<^verbatim>\<open>firstName\<close> returns has the least value, and among the items
  with the least value it is the one visited last. On \<^verbatim>\<open>{a: 3, b: 1, c: 1}\<close> the scan visits
  \<open>a\<close>, \<open>b\<close>, \<open>c\<close>; the last item with the least value is \<open>c\<close>, and the code returns
  \<open>b\<close>: the test \<^verbatim>\<open>item.value < i\<close> is strict, so a later item with the same value does not
  replace the earlier one.
\<close>

theorem firstName_tie_is_not_last:
  "firstName tie_enum = Some ''b'' \<and> lastMinName tie_enum = Some ''c''
   \<and> firstName tie_enum \<noteq> lastMinName tie_enum"
  by (simp add: firstName_def lastMinName_def tie_enum_def new_Enum_def new_EnumItem_def)

text \<open>
  C4, amended: on an enumeration without items \<^verbatim>\<open>firstName\<close> and \<^verbatim>\<open>first\<close> return null. On
  any other, \<^verbatim>\<open>firstName\<close> returns the key of an item whose value is the least of all
  values, \<^verbatim>\<open>first\<close> returns the item stored under that key, and among the items with the
  least value it is the one visited first. On \<^verbatim>\<open>{a: 3, b: 1, c: 1}\<close> the name is one of
  \<open>b\<close> and \<open>c\<close>.
\<close>

theorem firstName_first_minimum:
  "(enumMap this = [] \<longrightarrow> firstName this = None \<and> first this = Nullish)
   \<and> (enumMap this \<noteq> [] \<longrightarrow> distinct (map fst (enumMap this)) \<longrightarrow>
        (\<exists>k item. firstName this = Some k \<and> first this = Val item
           \<and> (k, item) \<in> set (enumMap this)
           \<and> (\<forall>p \<in> set (enumMap this). value item \<le> value (snd p))
           \<and> find (\<lambda>p. value (snd p) = value item) (enumMap this) = Some (k, item)))
   \<and> firstName this = firstMinName this
   \<and> firstName tie_enum \<in> {Some ''b'', Some ''c''}"
proof -
  have none: "enumMap this = [] \<longrightarrow> firstName this = None \<and> first this = Nullish"
    by (simp add: firstName_def first_def)
  have some: "\<exists>k item. firstName this = Some k \<and> first this = Val item
           \<and> (k, item) \<in> set (enumMap this)
           \<and> (\<forall>p \<in> set (enumMap this). value item \<le> value (snd p))
           \<and> find (\<lambda>p. value (snd p) = value item) (enumMap this) = Some (k, item)"
    if ne: "enumMap this \<noteq> []" and dist: "distinct (map fst (enumMap this))"
  proof -
    let ?m = "enumMap this"
    let ?vs = "map (\<lambda>p. value (snd p)) ?m"
    have "min_list ?vs \<in> set ?vs" using ne by (intro min_list_in) simp
    then obtain p where "p \<in> set ?m" "value (snd p) = min_list ?vs"
      by auto
    then have "find (\<lambda>p. value (snd p) = min_list ?vs) ?m \<noteq> None"
      unfolding find_None_iff by blast
    then obtain k item where f: "find (\<lambda>p. value (snd p) = min_list ?vs) ?m = Some (k, item)"
      by auto
    then have mem: "(k, item) \<in> set ?m" and v: "value item = min_list ?vs"
      by (auto dest: find_Some_mem)
    have name: "firstName this = Some k"
      using f by (simp add: firstName_firstMinName firstMinName_def)
    have "map_of ?m k = Some item" using dist mem by simp
    then have fst: "first this = Val item"
      using name by (simp add: first_def js_get_own)
    have least: "\<forall>p \<in> set ?m. value item \<le> value (snd p)"
    proof
      fix p assume "p \<in> set ?m"
      then have "value (snd p) \<in> set ?vs" by simp
      then show "value item \<le> value (snd p)" unfolding v by (rule min_list_le)
    qed
    show ?thesis using name fst mem least f v by auto
  qed
  have ex: "firstName tie_enum \<in> {Some ''b'', Some ''c''}"
    by (simp add: firstName_def tie_enum_def new_Enum_def new_EnumItem_def)
  show ?thesis using none some ex firstName_firstMinName by blast
qed

theorem firstName_first_minimum_witness:
  "enumMap tie_enum \<noteq> [] \<and> distinct (map fst (enumMap tie_enum))
   \<and> (\<exists>k item. firstName tie_enum = Some k \<and> first tie_enum = Val item
          \<and> (k, item) \<in> set (enumMap tie_enum)
          \<and> (\<forall>p \<in> set (enumMap tie_enum). value item \<le> value (snd p))
          \<and> find (\<lambda>p. value (snd p) = value item) (enumMap tie_enum) = Some (k, item))
   \<and> enumMap new_Enum = [] \<and> firstName new_Enum = None \<and> first new_Enum = Nullish"
proof -
  have ne: "enumMap tie_enum \<noteq> []" and dist: "distinct (map fst (enumMap tie_enum))"
    by (simp_all add: tie_enum_def new_Enum_def)
  have e: "enumMap new_Enum = []"
    by (simp add: new_Enum_def)
  show ?thesis
    using firstName_first_minimum [of tie_enum] firstName_first_minimum [of new_Enum] ne dist e
    by blast
qed

subsection \<open>Loading\<close>

text \<open>
  C10. \<^verbatim>\<open>$ElementPath.load\<close> returns a path for every document: a coordinate the document
  lacks is a null coordinate of the path, and the result is never null. So the test of the
  loaded path in \<^verbatim>\<open>$FieldType.load\<close> never fires: a \<^verbatim>\<open>TObject\<close> or \<^verbatim>\<open>TEnum\<close> document that
  has its path loads, whatever the path holds.
\<close>

theorem ElementPath_load_never_null:
  "module (ElementPath_load d) = pd_module d \<and> name (ElementPath_load d) = pd_name d
   \<and> notNU [nu (Some (ElementPath_load d))]
   \<and> (td_type t = Some ''TObject'' \<longrightarrow> td_entity t = Some d \<longrightarrow>
        FieldType_load t = Some (TObject (ElementPath_load d)))
   \<and> (td_type t = Some ''TEnum'' \<longrightarrow> td_enu t = Some d \<longrightarrow>
        FieldType_load t = Some (TEnum (ElementPath_load d)))"
proof -
  have path: "module (ElementPath_load d) = pd_module d \<and> name (ElementPath_load d) = pd_name d"
    by (simp add: ElementPath_load_def nullish_or_def split: option.splits)
  have test: "notNU [nu (Some (ElementPath_load d))]"
    by (simp add: nu_def)
  have obj: "td_type t = Some ''TObject'' \<longrightarrow> td_entity t = Some d \<longrightarrow>
        FieldType_load t = Some (TObject (ElementPath_load d))"
    by (cases t) (simp add: nu_def)
  have enm: "td_type t = Some ''TEnum'' \<longrightarrow> td_enu t = Some d \<longrightarrow>
        FieldType_load t = Some (TEnum (ElementPath_load d))"
    by (cases t) (simp add: nu_def)
  show ?thesis using path test obj enm by blast
qed

theorem ElementPath_load_never_null_witness:
  "td_type (FieldType_data (Some ''TObject'') (Some \<lparr>pd_module = None, pd_name = None\<rparr>)
      None None None) = Some ''TObject''
   \<and> td_entity (FieldType_data (Some ''TObject'') (Some \<lparr>pd_module = None, pd_name = None\<rparr>)
      None None None) = Some \<lparr>pd_module = None, pd_name = None\<rparr>
   \<and> FieldType_load (FieldType_data (Some ''TObject'')
        (Some \<lparr>pd_module = None, pd_name = None\<rparr>) None None None)
      = Some (TObject \<lparr>module = None, name = None\<rparr>)
   \<and> td_type (FieldType_data (Some ''TEnum'') None (Some \<lparr>pd_module = None, pd_name = Some ''E''\<rparr>)
      None None) = Some ''TEnum''
   \<and> td_enu (FieldType_data (Some ''TEnum'') None (Some \<lparr>pd_module = None, pd_name = Some ''E''\<rparr>)
      None None) = Some \<lparr>pd_module = None, pd_name = Some ''E''\<rparr>
   \<and> FieldType_load (FieldType_data (Some ''TEnum'') None
        (Some \<lparr>pd_module = None, pd_name = Some ''E''\<rparr>) None None)
      = Some (TEnum \<lparr>module = None, name = Some ''E''\<rparr>)"
  using
    ElementPath_load_never_null [of "\<lparr>pd_module = None, pd_name = None\<rparr>"
      "FieldType_data (Some ''TObject'') (Some \<lparr>pd_module = None, pd_name = None\<rparr>)
         None None None"]
    ElementPath_load_never_null [of "\<lparr>pd_module = None, pd_name = Some ''E''\<rparr>"
      "FieldType_data (Some ''TEnum'') None (Some \<lparr>pd_module = None, pd_name = Some ''E''\<rparr>)
         None None"]
  by (simp add: ElementPath_load_def nullish_or_def)


lemma js_set_proto: "''__proto__'' \<notin> fst ` set dst \<Longrightarrow> js_set dst ''__proto__'' v = dst"
  by (induction dst) auto












text \<open>
  A complete field under the key \<^verbatim>\<open>__proto__\<close> is not stored either: the assignment
  \<^verbatim>\<open>entity.fieldsLocal[i] = field\<close> defines no own property for that key.
\<close>

lemma Entity_load_proto_key_not_stored:
  "Field_load integer_field_data = Some (new_Field TInteger)
   \<and> (\<exists>e. Entity_load proto_key_entity_data = Inr (Some e) \<and> fieldsLocal e = [])"
  by (simp add: proto_key_entity_data_def three_field_entity_data_def integer_field_data_def
      Entity_load_def Field_load_def nu_def Let_def new_Entity_def new_Field_def OBJECT_def
      nullish_or_def nullish_or_else_def)



subsection \<open>Flattening a project\<close>










subsection \<open>Generics along the inheritance chain\<close>

lemma getGenericLocal_loop_concat:
  "getGenericLocal_loop fs result =
     result @ concat (map (\<lambda>p. case Field_type (snd p) of TUnknown u \<Rightarrow> [u] | _ \<Rightarrow> []) fs)"
  by (induction fs result rule: getGenericLocal_loop.induct) (auto split: FieldType.splits)

text \<open>The local generics: the parameter names of the \<^verbatim>\<open>TUnknown\<close> fields, in their order.\<close>

lemma getGenericLocal_concat:
  "getGenericLocal e =
     concat (map (\<lambda>p. case Field_type (snd p) of TUnknown u \<Rightarrow> [u] | _ \<Rightarrow> [])
       (fieldsLocal e))"
  by (simp add: getGenericLocal_def getGenericLocal_loop_concat)

text \<open>
  The filter of \<^verbatim>\<open>getGenericUnsolved\<close> drops the keys of \<^verbatim>\<open>genericMap\<close> and the names of the
  properties of \<^verbatim>\<open>Object.prototype\<close>; on a list without such names it drops the keys of
  \<^verbatim>\<open>genericMap\<close> only.
\<close>

lemma truthy_js_get: "truthy (js_get ob k) = (k \<in> fst ` set ob \<or> k \<in> set Object_prototype)"
proof (cases "map_of ob k")
  case None
  then have "k \<notin> fst ` set ob" by (simp add: map_of_eq_None_iff)
  then show ?thesis using None by (simp add: js_get_def)
next
  case (Some v)
  then have "(k, v) \<in> set ob" by (rule map_of_SomeD)
  then have "k \<in> fst ` set ob" by force
  then show ?thesis using Some by (simp add: js_get_def)
qed

lemma unsolved_here_filter:
  "unsolved_here e pg =
     filter (\<lambda>g. g \<notin> fst ` set (genericMap e) \<and> g \<notin> set Object_prototype)
       (pg @ getGenericLocal e)"
  by (simp add: unsolved_here_def truthy_js_get)

lemma unsolved_here_plain:
  "set (pg @ getGenericLocal e) \<inter> set Object_prototype = {} \<Longrightarrow>
     unsolved_here e pg = filter (\<lambda>g. g \<notin> fst ` set (genericMap e)) (pg @ getGenericLocal e)"
  unfolding unsolved_here_filter by (rule filter_cong) auto

text \<open>
  On an acyclic chain whose parent paths resolve to entities or to null,
  \<^verbatim>\<open>getGenericUnsolved\<close> returns: the list of the parent, then the local generics, filtered,
  level after level from the eldest ancestor down.
\<close>

lemma getGenericUnsolved_lineage:
  "lineage P e as \<Longrightarrow>
     getGenericUnsolved e (Some P) = Some (Inr (foldl (\<lambda>pg a. unsolved_here a pg) [] as))"
proof (induction rule: lineage.induct)
  case (eldest e)
  then show ?case by (subst getGenericUnsolved.simps) auto
next
  case (child e pp a as)
  then show ?case by (subst getGenericUnsolved.simps) simp
qed

lemma getGenericUnsolved_no_project: "getGenericUnsolved e None = Some (Inr [])"
  by (subst getGenericUnsolved.simps) simp

text \<open>The scenario: \<open>Parent\<close> has \<open>T\<close> unsolved, \<open>Child\<close> has not.\<close>

lemma lineage_scenario:
  "lineage family_project Parent_entity [Parent_entity]"
  "lineage family_project Child_entity [Parent_entity, Child_entity]"
proof -
  show p: "lineage family_project Parent_entity [Parent_entity]"
    by (rule lineage.eldest) (simp add: Parent_entity_def new_Entity_def)
  have "asEntityOf \<lparr>module = Some ''m'', name = Some ''Parent''\<rparr> (Some family_project)
      = Inr (Val Parent_entity)"
    by (simp add: asEntityOf_def js_get_def family_project_def new_Project_def new_Module_def)
  then show "lineage family_project Child_entity [Parent_entity, Child_entity]"
    using lineage.child [of Child_entity _ family_project Parent_entity "[Parent_entity]"] p
    by (simp add: Child_entity_def new_Entity_def)
qed

lemma getGenericUnsolved_scenario:
  "getGenericUnsolved Parent_entity (Some family_project) = Some (Inr [''T''])"
  "getGenericUnsolved Child_entity (Some family_project) = Some (Inr [])"
  unfolding getGenericUnsolved_lineage [OF lineage_scenario(1)]
    getGenericUnsolved_lineage [OF lineage_scenario(2)]
  by (simp_all add: unsolved_here_def getGenericLocal_def js_get_def Object_prototype_def
      Parent_entity_def Child_entity_def new_Entity_def new_Field_def)

text \<open>
  C1 says that the result is the list of the parent followed by the local generics, without
  the names that are keys of \<^verbatim>\<open>genericMap\<close>. The entity below has no parent, the one local
  generic \<open>constructor\<close>, and an empty \<^verbatim>\<open>genericMap\<close>; the claim gives the list with that one
  name. The code returns the empty list: \<^verbatim>\<open>this.genericMap["constructor"]\<close> is the function
  every object inherits from \<^verbatim>\<open>Object.prototype\<close>, so \<^verbatim>\<open>!this.genericMap[o]\<close> is false and
  the filter drops the name.
\<close>

theorem getGenericUnsolved_drops_inherited_name:
  "parent generic_constructor_entity = None
   \<and> getGenericLocal generic_constructor_entity = [''constructor'']
   \<and> genericMap generic_constructor_entity = []
   \<and> getGenericUnsolved generic_constructor_entity (Some empty_project) = Some (Inr [])"
proof -
  have "getGenericUnsolved generic_constructor_entity (Some empty_project) = Some (Inr [])"
    by (subst getGenericUnsolved.simps)
       (simp add: generic_constructor_entity_def new_Entity_def new_Field_def unsolved_here_def
          getGenericLocal_def js_get_def Object_prototype_def)
  then show ?thesis
    by (simp add: generic_constructor_entity_def new_Entity_def new_Field_def
        getGenericLocal_def)
qed

subsection \<open>The walk from the eldest ancestor\<close>

lemma lineage_last: "lineage P e as \<Longrightarrow> as \<noteq> [] \<and> last as = e"
  by (induction rule: lineage.induct) auto

text \<open>
  On an acyclic chain whose parent paths resolve to entities or to null, the walk calls
  the callback on the entities of the chain, the eldest first and the receiver last, once
  each.
\<close>

lemma fromAncestorToMe_lineage:
  "lineage P e as \<Longrightarrow> fromAncestorToMe e P block s = Some (Inr (fold block as s))"
proof (induction arbitrary: s rule: lineage.induct)
  case (eldest e)
  then show ?case by (subst fromAncestorToMe.simps) auto
next
  case (child e pp a as)
  then show ?case by (subst fromAncestorToMe.simps) simp
qed

lemma fromAncestorToMe_visits:
  "lineage P e as \<Longrightarrow> fromAncestorToMe e P (\<lambda>a visited. visited @ [a]) [] = Some (Inr as)"
proof -
  have "fold (\<lambda>a visited. visited @ [a]) as s = s @ as" for s :: "Entity list"
    by (induction as arbitrary: s) auto
  then show "lineage P e as \<Longrightarrow> ?thesis" by (simp add: fromAncestorToMe_lineage)
qed

lemma lineage_eldest:
  "lineage P e as \<Longrightarrow>
     parent (hd as) = None
     \<or> (\<exists>pp. parent (hd as) = Some pp \<and> asEntityOf pp (Some P) = Inr Nullish)"
proof (induction rule: lineage.induct)
  case (eldest e)
  then show ?case by simp
next
  case (child e pp a as)
  then have "as \<noteq> []" using lineage_last by blast
  then show ?case using child.IH by simp
qed

lemma lineage_links:
  "lineage P e as \<Longrightarrow> Suc i < length as \<Longrightarrow>
     \<exists>pp. parent (as ! Suc i) = Some pp \<and> asEntityOf pp (Some P) = Inr (Val (as ! i))"
proof (induction arbitrary: i rule: lineage.induct)
  case (eldest e)
  then show ?case by simp
next
  case (child e pp a as)
  have ne: "as \<noteq> []" and la: "last as = a" using lineage_last [OF child.hyps(3)] by simp_all
  show ?case
  proof (cases "Suc i < length as")
    case True
    then show ?thesis using child.IH [of i] by (simp add: nth_append)
  next
    case False
    then have i: "Suc i = length as" using child.prems by simp
    then have "i = length as - 1" by simp
    then have "(as @ [e]) ! i = a" using ne la by (simp add: nth_append last_conv_nth)
    then show ?thesis using i child.hyps(1,2) by (simp add: nth_append)
  qed
qed

text \<open>
  The same with the chain spelled out: the visited entities are the ancestors and then the
  receiver, one call more than there are ancestors; the first of them has no parent path
  or one that resolves to null, and each of the others has a parent path that resolves to
  the one before it.
\<close>

lemma fromAncestorToMe_walks_lineage:
  assumes "lineage P e as"
  shows "fromAncestorToMe e P block s = Some (Inr (fold block as s))
    \<and> fromAncestorToMe e P (\<lambda>a visited. visited @ [a]) [] = Some (Inr as)
    \<and> (\<exists>ancestors. as = ancestors @ [e] \<and> length as = length ancestors + 1)
    \<and> (parent (hd as) = None
        \<or> (\<exists>pp. parent (hd as) = Some pp \<and> asEntityOf pp (Some P) = Inr Nullish))
    \<and> (\<forall>i. Suc i < length as \<longrightarrow>
          (\<exists>pp. parent (as ! Suc i) = Some pp
             \<and> asEntityOf pp (Some P) = Inr (Val (as ! i))))"
proof -
  have "as \<noteq> []" "last as = e" using lineage_last [OF assms] by simp_all
  then have "as = butlast as @ [e]" by (metis append_butlast_last_id)
  then have "\<exists>ancestors. as = ancestors @ [e] \<and> length as = length ancestors + 1"
    by (metis length_append_singleton Suc_eq_plus1)
  then show ?thesis
    using fromAncestorToMe_lineage [OF assms, of block s] fromAncestorToMe_visits [OF assms]
      lineage_eldest [OF assms] lineage_links [OF assms]
    by blast
qed

text \<open>
  The walk on two chains of the scenario: from \<open>Child\<close>, whose parent path resolves, and
  from an entity whose parent path resolves to null.
\<close>

lemma fromAncestorToMe_walks_scenario:
  "lineage family_project Child_entity [Parent_entity, Child_entity]
   \<and> fromAncestorToMe Child_entity family_project (\<lambda>a visited. visited @ [a]) []
       = Some (Inr [Parent_entity, Child_entity])
   \<and> lineage family_project lost_parent_entity [lost_parent_entity]
   \<and> fromAncestorToMe lost_parent_entity family_project (\<lambda>a visited. visited @ [a]) []
       = Some (Inr [lost_parent_entity])"
proof -
  have "asEntityOf \<lparr>module = Some ''m'', name = Some ''Missing''\<rparr> (Some family_project)
      = Inr Nullish"
    by (simp add: asEntityOf_def js_get_def Object_prototype_def family_project_def
        new_Project_def new_Module_def)
  then have lost: "lineage family_project lost_parent_entity [lost_parent_entity]"
    by (intro lineage.eldest) (simp add: lost_parent_entity_def new_Entity_def)
  show ?thesis
    using
      fromAncestorToMe_walks_lineage [OF lineage_scenario(2), THEN conjunct2, THEN conjunct1]
      fromAncestorToMe_walks_lineage [OF lost, THEN conjunct2, THEN conjunct1]
      lineage_scenario(2) lost
    by simp
qed

text \<open>
  C5 says that the walk calls the callback on the ancestors, the eldest first, and on the
  receiver last, and that where a parent path along the chain fails to resolve the walk
  only starts lower: the receiver itself is always visited. The entity below has the
  parent path \<^verbatim>\<open>{module: "constructor", name: "A"}\<close>, which names nothing in the project
  without modules, so the chain is the entity alone and the claim has the callback called
  once, on it. In the code \<^verbatim>\<open>asEntityOf\<close> raises a TypeError on that path
  (\<^verbatim>\<open>project.modules["constructor"]\<close> is the inherited function \<^verbatim>\<open>Object\<close>), and the walk
  ends with that error before \<^verbatim>\<open>block(this)\<close>: the callback is not called at all, whatever
  it is, and the state is what it was.
\<close>

theorem fromAncestorToMe_raises_before_visit:
  "parent constructor_child_entity = Some \<lparr>module = Some ''constructor'', name = Some ''A''\<rparr>
   \<and> map_of (modules empty_project) ''constructor'' = None
   \<and> asEntityOf \<lparr>module = Some ''constructor'', name = Some ''A''\<rparr> (Some empty_project)
       = Inl TypeError
   \<and> fromAncestorToMe constructor_child_entity empty_project (\<lambda>a visited. visited @ [a]) []
       = Some (Inl (TypeError, []))
   \<and> fromAncestorToMe constructor_child_entity empty_project block s
       = Some (Inl (TypeError, s))"
proof -
  have r: "asEntityOf \<lparr>module = Some ''constructor'', name = Some ''A''\<rparr> (Some empty_project)
       = Inl TypeError"
    by (simp add: asEntityOf_def js_get_def Object_prototype_def empty_project_def
        new_Project_def)
  have w: "fromAncestorToMe constructor_child_entity empty_project b z
       = Some (Inl (TypeError, z))" for b :: "Entity \<Rightarrow> 'z \<Rightarrow> 'z" and z
    by (subst fromAncestorToMe.simps)
       (simp add: constructor_child_entity_def new_Entity_def r)
  show ?thesis
    using r w [of "\<lambda>a visited. visited @ [a]" "[]"] w [of block s]
    by (simp add: constructor_child_entity_def new_Entity_def empty_project_def new_Project_def)
qed

end
